theory Spec2Isabelle
  imports Main "HOL-Library.Sublist"
begin

section \<open>Auto Email Draft Assistant: prompt construction and response postprocessing\<close>

text \<open>
  The development embeds the results section of \<^verbatim>\<open>src/app.py\<close> (lines 56 to 120): the
  prompt built from the form fields, the call of the text generation pipeline, the removal
  of the echoed prompt, the fallback draft for short output, and what is displayed.
\<close>

subsection \<open>Python strings\<close>

text \<open>
  A Python \<^verbatim>\<open>str\<close> is a sequence of Unicode code points and \<^verbatim>\<open>len\<close> counts
  them, so a string is a list of code points. \<open>lit\<close> reads an ASCII literal of the
  source; the apostrophe is written as the code point 39 and the newline as 10.
\<close>

type_synonym str = "nat list"

definition lit :: "string \<Rightarrow> str" where
  "lit s = map of_char s"

text \<open>
  \<^verbatim>\<open>str.isspace\<close> for one code point: the characters \<^verbatim>\<open>str.strip()\<close> removes.
\<close>

definition isspace :: "nat \<Rightarrow> bool" where
  "isspace c =
     ((9 \<le> c \<and> c \<le> 13) \<or> (28 \<le> c \<and> c \<le> 32) \<or> c = 133 \<or> c = 160 \<or> c = 5760
      \<or> (8192 \<le> c \<and> c \<le> 8202) \<or> c = 8232 \<or> c = 8233 \<or> c = 8239 \<or> c = 8287
      \<or> c = 12288)"

text \<open>\<^verbatim>\<open>s.strip()\<close>: leading and trailing whitespace removed.\<close>

definition strip :: "str \<Rightarrow> str" where
  "strip s = rev (dropWhile isspace (rev (dropWhile isspace s)))"

text \<open>
  \<^verbatim>\<open>s.replace(old, new)\<close> with no count: a scan from the left that replaces every
  occurrence of \<open>old\<close> it meets and resumes behind it. For an empty \<open>old\<close> Python
  puts \<open>new\<close> before every character and at the end.
\<close>

function str_replace :: "str \<Rightarrow> str \<Rightarrow> str \<Rightarrow> str" where
  "str_replace old new s =
     (if old = [] then new @ concat (map (\<lambda>c. c # new) s)
      else (case s of
              [] \<Rightarrow> []
            | c # cs \<Rightarrow>
                if prefix old s then new @ str_replace old new (drop (length old) s)
                else c # str_replace old new cs))"
  by pat_completeness auto
termination
  by (relation "measure (\<lambda>(old, new, s). length s)") auto

text \<open>\<^verbatim>\<open>s.find(sub)\<close>: the index of the first occurrence, \<open>None\<close> for Python's -1.\<close>

fun str_find :: "str \<Rightarrow> str \<Rightarrow> nat option" where
  "str_find sub [] = (if sub = [] then Some 0 else None)"
| "str_find sub (c # cs) =
     (if prefix sub (c # cs) then Some 0 else map_option Suc (str_find sub cs))"

text \<open>
  \<^verbatim>\<open>str.lower()\<close> on ASCII text. The source applies it to the selected tone only, one
  of six labels made of ASCII letters.
\<close>

definition lower :: "str \<Rightarrow> str" where
  "lower s = map (\<lambda>c. if 65 \<le> c \<and> c \<le> 90 then c + 32 else c) s"

subsection \<open>Form inputs and the script's variables\<close>

text \<open>The options of the tone select box (line 37).\<close>

datatype tone = Formal | Friendly | Apologetic | Urgent | Professional | Casual

fun tone_str :: "tone \<Rightarrow> str" where
  "tone_str Formal = lit ''Formal''"
| "tone_str Friendly = lit ''Friendly''"
| "tone_str Apologetic = lit ''Apologetic''"
| "tone_str Urgent = lit ''Urgent''"
| "tone_str Professional = lit ''Professional''"
| "tone_str Casual = lit ''Casual''"

text \<open>
  What the widgets return in one run of the script (lines 31 to 50, and the copy button of
  line 113). \<open>name_input\<close> and \<open>position_input\<close> are the contents of the two
  signature text inputs; the script reads them only when the signature box is ticked.
\<close>

record inputs =
  recipient :: str
  subject :: str
  purpose :: str
  tone :: tone
  include_greeting :: bool
  include_signature :: bool
  name_input :: str
  position_input :: str
  generate_button :: bool
  copy_button :: bool

text \<open>
  Lines 45 to 47: the variables \<^verbatim>\<open>sender_name\<close> and \<^verbatim>\<open>sender_position\<close> are
  assigned only under \<^verbatim>\<open>if include_signature\<close>. Every run starts from a fresh
  namespace, so otherwise they are unbound: \<open>None\<close>.
\<close>

definition sender_name :: "inputs \<Rightarrow> str option" where
  "sender_name w = (if include_signature w then Some (name_input w) else None)"

definition sender_position :: "inputs \<Rightarrow> str option" where
  "sender_position w = (if include_signature w then Some (position_input w) else None)"

text \<open>
  Exceptions: reading an unbound variable raises \<^verbatim>\<open>NameError\<close>; anything the
  generation pipeline raises is an \<open>EngineError\<close> carrying its message.
\<close>

datatype exn = NameError string | EngineError str

text \<open>\<^verbatim>\<open>str(e)\<close>\<close>

fun str_exn :: "exn \<Rightarrow> str" where
  "str_exn (NameError v) = lit ''name '' @ [39] @ lit v @ [39] @ lit '' is not defined''"
| "str_exn (EngineError m) = m"

subsection \<open>Prompt construction (lines 59 to 77)\<close>

text \<open>
  The first f-string is a triple-quoted literal: a newline, the twelve spaces of the
  line's indentation, the sentence start, a newline and twelve more spaces. Each
  \<^verbatim>\<open>+=\<close> of the source is one rebinding of \<open>p\<close>. \<^verbatim>\<open>include_signature and sender_name\<close>
  reads \<^verbatim>\<open>sender_name\<close> only when the box is ticked.
\<close>

definition prompt_template :: "inputs \<Rightarrow> exn + str" where
  "prompt_template w =
     (let p = [10] @ replicate 12 32 @ lit ''Write a '' @ lower (tone_str (tone w))
                @ lit '' email'' @ [10] @ replicate 12 32;
          p = (if include_greeting w \<and> recipient w \<noteq> []
               then p @ lit '' that starts with a greeting to '' @ recipient w else p);
          p = p @ lit '' about the following: '' @ purpose w @ lit ''.'';
          p = (if subject w \<noteq> []
               then p @ lit '' The email subject is: '' @ [39] @ subject w @ [39] @ lit ''.''
               else p);
          p = p @ lit '' The email should be professional, well-structured with clear paragraphs.''
      in if include_signature w then
           (case sender_name w of
              None \<Rightarrow> Inl (NameError ''sender_name'')
            | Some n \<Rightarrow>
                if n \<noteq> [] then
                  (case sender_position w of
                     None \<Rightarrow> Inl (NameError ''sender_position'')
                   | Some q \<Rightarrow>
                       (let signature = n;
                            signature = (if q \<noteq> [] then signature @ lit '', '' @ q
                                         else signature)
                        in Inr (p @ lit '' End the email with a proper closing and signature: ''
                                  @ signature @ lit ''.'')))
                else Inr p)
         else Inr p)"

subsection \<open>Response postprocessing (lines 91 to 103)\<close>

text \<open>
  The fallback f-string: every line of the literal carries the twenty spaces of its
  indentation, and the replacement fields are evaluated from left to right, so the first
  unbound variable read is \<^verbatim>\<open>sender_name\<close>.
\<close>

definition fallback :: "inputs \<Rightarrow> exn + str" where
  "fallback w =
     (case sender_name w of
        None \<Rightarrow> Inl (NameError ''sender_name'')
      | Some n \<Rightarrow>
          (case sender_position w of
             None \<Rightarrow> Inl (NameError ''sender_position'')
           | Some q \<Rightarrow>
               Inr ([10] @ replicate 20 32
                    @ (if recipient w \<noteq> [] then lit ''Dear '' @ recipient w @ lit '',''
                       else lit ''Hello,'')
                    @ [10] @ replicate 20 32
                    @ [10] @ replicate 20 32 @ purpose w
                    @ [10] @ replicate 20 32
                    @ [10] @ replicate 20 32
                    @ (if tone w = Formal \<or> tone w = Professional then lit ''Best regards,''
                       else lit ''Thanks,'')
                    @ [10] @ replicate 20 32 @ (if n \<noteq> [] then n else [])
                    @ [10] @ replicate 20 32 @ (if q \<noteq> [] then q else [])
                    @ [10] @ replicate 20 32)))"

text \<open>Lines 91 to 103: the text to display, from the prompt and the pipeline's output.\<close>

definition email_text :: "str \<Rightarrow> str \<Rightarrow> inputs \<Rightarrow> exn + str" where
  "email_text p output w =
     (let t = strip (str_replace p [] output)
      in if length t < 50 then fallback w else Inr t)"

subsection \<open>The results section (lines 56 to 120)\<close>

text \<open>
  What one run shows in the results column, in order, and what it did: the prompt it
  built, if any, and the prompts it sent to the generation pipeline. The pipeline is a
  parameter: the text it returns for a prompt, or the exception it raises.
\<close>

datatype ui = Info str | Error str | Markdown str | Success str

record outcome =
  prompt_built :: "str option"
  engine_calls :: "str list"
  displayed :: "ui list"

text \<open>The \<^verbatim>\<open>except Exception\<close> handler (lines 116 to 118).\<close>

definition on_exception :: "exn \<Rightarrow> ui list" where
  "on_exception e =
     [Error (lit ''Error generating email: '' @ str_exn e),
      Info (lit ''Try with a simpler description or different tone.'')]"

definition fill_in_message :: str where
  "fill_in_message =
     lit ''Fill in the details on the left and click '' @ [39] @ lit ''Generate Email''
     @ [39] @ lit '' to create your draft.''"

text \<open>
  The prompt is built before the \<^verbatim>\<open>try\<close>, so an exception there leaves the script
  (\<open>Inl\<close>); one raised by the pipeline or by the fallback is caught and reported.
\<close>

definition results_section :: "(str \<Rightarrow> exn + str) \<Rightarrow> inputs \<Rightarrow> exn + outcome" where
  "results_section generator w =
     (if generate_button w \<and> purpose w \<noteq> [] then
        (case prompt_template w of
           Inl e \<Rightarrow> Inl e
         | Inr p \<Rightarrow>
             Inr (case generator p of
                    Inl e \<Rightarrow>
                      \<lparr>prompt_built = Some p, engine_calls = [p], displayed = on_exception e\<rparr>
                  | Inr output \<Rightarrow>
                      (case email_text p output w of
                         Inl e \<Rightarrow>
                           \<lparr>prompt_built = Some p, engine_calls = [p],
                            displayed = on_exception e\<rparr>
                       | Inr t \<Rightarrow>
                           \<lparr>prompt_built = Some p, engine_calls = [p],
                            displayed =
                              (if subject w \<noteq> []
                               then [Markdown (lit ''**Subject:** '' @ subject w)] else [])
                              @ [Markdown t]
                              @ (if copy_button w
                                 then [Success (lit ''Email copied to clipboard!'')]
                                 else [])\<rparr>)))
      else
        Inr \<lparr>prompt_built = None, engine_calls = [], displayed = [Info fill_in_message]\<rparr>)"

subsection \<open>The specification's reading, for comparison with the code\<close>

text \<open>
  The specification describes the prompt as an ordered list of clauses, some of them
  optional. \<open>clauses\<close> follows that description (section 4.1, steps 1 to 6);
  \<open>render\<close> gives each clause the text the source's f-strings give it.
\<close>

datatype clause =
  Base tone | Greeting str | Purpose str | Subject str | Structure | Signature str

fun render :: "clause \<Rightarrow> str" where
  "render (Base t) =
     [10] @ replicate 12 32 @ lit ''Write a '' @ lower (tone_str t) @ lit '' email''
     @ [10] @ replicate 12 32"
| "render (Greeting r) = lit '' that starts with a greeting to '' @ r"
| "render (Purpose x) = lit '' about the following: '' @ x @ lit ''.''"
| "render (Subject s) = lit '' The email subject is: '' @ [39] @ s @ [39] @ lit ''.''"
| "render Structure =
     lit '' The email should be professional, well-structured with clear paragraphs.''"
| "render (Signature s) =
     lit '' End the email with a proper closing and signature: '' @ s @ lit ''.''"

definition clauses :: "inputs \<Rightarrow> clause list" where
  "clauses w =
     [Base (tone w)]
     @ (if include_greeting w \<and> recipient w \<noteq> [] then [Greeting (recipient w)] else [])
     @ [Purpose (purpose w)]
     @ (if subject w \<noteq> [] then [Subject (subject w)] else [])
     @ [Structure]
     @ (if include_signature w \<and> name_input w \<noteq> []
        then [Signature (name_input w
                @ (if position_input w \<noteq> [] then lit '', '' @ position_input w else []))]
        else [])"

text \<open>
  The specification's base clause, with its full stop: \<^verbatim>\<open>Write a {tone, lowercased} email.\<close>
\<close>

definition spec_base_clause :: "tone \<Rightarrow> str" where
  "spec_base_clause t = lit ''Write a '' @ lower (tone_str t) @ lit '' email.''"

text \<open>
  The specification's stripping step (section 4.2, step 1): only the first occurrence of
  the prompt is removed. In Python this would be \<^verbatim>\<open>replace(prompt, "", 1)\<close>.
\<close>

definition remove_first :: "str \<Rightarrow> str \<Rightarrow> str" where
  "remove_first sub s =
     (case str_find sub s of
        None \<Rightarrow> s
      | Some i \<Rightarrow> take i s @ drop (i + length sub) s)"

subsection \<open>Sample inputs\<close>

text \<open>The scenario of the specification's section 8.\<close>

definition scenario :: inputs where
  "scenario =
     \<lparr>recipient = lit ''John Doe'', subject = lit ''Meeting Request'',
      purpose = lit ''Apologizing for missing the meeting'', tone = Formal,
      include_greeting = True, include_signature = True,
      name_input = lit ''Jane Smith'', position_input = lit ''Marketing Manager'',
      generate_button = True, copy_button = False\<rparr>"

text \<open>A short request with every optional field left empty.\<close>

definition bare :: inputs where
  "bare =
     \<lparr>recipient = [], subject = [], purpose = lit ''Hi'', tone = Friendly,
      include_greeting = True, include_signature = True,
      name_input = [], position_input = [],
      generate_button = True, copy_button = False\<rparr>"

text \<open>A pipeline that returns the prompt followed by a short continuation.\<close>

definition echo :: "str \<Rightarrow> exn + str" where
  "echo p = Inr (p @ lit '' Ok.'')"


section \<open>Properties\<close>

declare str_replace.simps [simp del]

subsection \<open>Strings\<close>

lemma str_replace_Nil: "str_replace old new [] = (if old = [] then new else [])"
  by (simp add: str_replace.simps)

lemma str_replace_Cons:
  "old \<noteq> [] \<Longrightarrow>
   str_replace old new (c # cs) =
     (if prefix old (c # cs) then new @ str_replace old new (drop (length old) (c # cs))
      else c # str_replace old new cs)"
  by (subst str_replace.simps) simp

lemma str_replace_empty_old: "str_replace [] [] s = s"
  by (induction s) (simp_all add: str_replace.simps)

lemma str_replace_find:
  "old \<noteq> [] \<Longrightarrow>
   str_replace old [] s =
     (case str_find old s of
        None \<Rightarrow> s
      | Some i \<Rightarrow> take i s @ str_replace old [] (drop (i + length old) s))"
proof (induction s)
  case Nil
  then show ?case by (simp add: str_replace_Nil)
next
  case (Cons c cs)
  show ?case
  proof (cases "prefix old (c # cs)")
    case True
    with Cons.prems show ?thesis by (simp add: str_replace_Cons)
  next
    case False
    with Cons show ?thesis
      by (simp add: str_replace_Cons split: option.splits)
  qed
qed

lemma replicate_12: "replicate 12 x = [x, x, x, x, x, x, x, x, x, x, x, x]"
  by (simp add: eval_nat_numeral)

lemma length_lit: "length (lit s) = length s"
  by (simp add: lit_def)

lemma str_replace_short: "length s < length old \<Longrightarrow> str_replace old [] s = s"
proof (induction s)
  case Nil
  then show ?case by (auto simp: str_replace_Nil)
next
  case (Cons c cs)
  then have "old \<noteq> []" and "\<not> prefix old (c # cs)"
    by (auto dest: prefix_length_le)
  with Cons show ?case by (simp add: str_replace_Cons)
qed

lemma str_replace_echoed:
  assumes "length t < length p"
  shows "str_replace p [] (p @ t) = t"
proof -
  from assms obtain c cs where p: "p = c # cs" by (cases p) auto
  then have "str_replace p [] (p @ t) = str_replace p [] (drop (length p) (p @ t))"
    using str_replace_Cons [of p "[]" c "cs @ t"] by simp
  with assms show ?thesis by (simp add: str_replace_short)
qed

lemma strip_decomp:
  "\<exists>a b. s = a @ strip s @ b \<and> (\<forall>c\<in>set a. isspace c) \<and> (\<forall>c\<in>set b. isspace c)"
proof -
  let ?a = "takeWhile isspace s"
  let ?m = "dropWhile isspace s"
  let ?b = "rev (takeWhile isspace (rev ?m))"
  have "rev ?m = takeWhile isspace (rev ?m) @ dropWhile isspace (rev ?m)" by simp
  then have "?m = rev (dropWhile isspace (rev ?m)) @ ?b"
    by (metis rev_append rev_rev_ident)
  then have "s = ?a @ strip s @ ?b"
    by (metis strip_def takeWhile_dropWhile_id)
  moreover have "\<forall>c\<in>set ?a. isspace c" by (auto dest: set_takeWhileD)
  moreover have "\<forall>c\<in>set ?b. isspace c" by (auto dest: set_takeWhileD)
  ultimately show ?thesis by blast
qed

lemma strip_ends:
  assumes ne: "strip s \<noteq> []"
  shows "\<not> isspace (hd (strip s)) \<and> \<not> isspace (last (strip s))"
proof -
  let ?m = "dropWhile isspace s"
  let ?r = "dropWhile isspace (rev ?m)"
  from ne have r: "?r \<noteq> []" by (simp add: strip_def)
  then have "\<not> isspace (hd ?r)" by (metis hd_dropWhile)
  then have l: "\<not> isspace (last (strip s))" using r by (simp add: strip_def last_rev)
  have "?m \<noteq> []"
  proof
    assume "?m = []"
    then have "?r = []" by (simp only: rev.simps dropWhile.simps)
    with r show False by (simp only:)
  qed
  then have h: "\<not> isspace (hd ?m)" by (metis hd_dropWhile)
  obtain b where "?m = strip s @ b"
    by (metis strip_def rev_append rev_rev_ident takeWhile_dropWhile_id)
  with ne have "hd ?m = hd (strip s)" by (metis hd_append2)
  with h l show ?thesis by simp
qed

subsection \<open>The prompt as a list of clauses\<close>

lemma prompt_template_clauses:
  "prompt_template w = Inr (concat (map render (clauses w)))"
  by (auto simp: prompt_template_def clauses_def sender_name_def sender_position_def Let_def)

lemma render_not_empty: "render c \<noteq> []"
  by (cases c) (simp_all add: lit_def)

subsection \<open>The postprocessor and the results section in closed form\<close>

lemma fallback_cases:
  "fallback w =
     (if include_signature w then
        Inr ([10] @ replicate 20 32
             @ (if recipient w \<noteq> [] then lit ''Dear '' @ recipient w @ lit '',''
                else lit ''Hello,'')
             @ [10] @ replicate 20 32
             @ [10] @ replicate 20 32 @ purpose w
             @ [10] @ replicate 20 32
             @ [10] @ replicate 20 32
             @ (if tone w = Formal \<or> tone w = Professional then lit ''Best regards,''
                else lit ''Thanks,'')
             @ [10] @ replicate 20 32 @ name_input w
             @ [10] @ replicate 20 32 @ position_input w
             @ [10] @ replicate 20 32)
      else Inl (NameError ''sender_name''))"
  by (simp add: fallback_def sender_name_def sender_position_def)

lemma email_text_cases:
  "email_text p r w =
     (if 50 \<le> length (strip (str_replace p [] r)) then Inr (strip (str_replace p [] r))
      else fallback w)"
  by (simp add: email_text_def Let_def)



lemma results_section_idle:
  "\<not> (generate_button w \<and> purpose w \<noteq> []) \<Longrightarrow>
   results_section g w =
     Inr \<lparr>prompt_built = None, engine_calls = [], displayed = [Info fill_in_message]\<rparr>"
  by (simp only: results_section_def if_False)

subsection \<open>Claims about the postprocessor\<close>

text \<open>
  C1. Output of at least 50 characters after stripping is passed through and short output
  is replaced by the fallback draft. The code does not do the second for every request:
  with the signature box unticked and a short continuation from the pipeline, the
  fallback template reads the unbound \<^verbatim>\<open>sender_name\<close>, and the run shows the error
  message of the exception handler and no draft.
\<close>

theorem short_output_unsigned_shows_error:
  "map_sum id displayed (results_section echo (bare\<lparr>include_signature := False\<rparr>)) =
     Inr [Error (lit ''Error generating email: name '' @ [39] @ lit ''sender_name'' @ [39]
                 @ lit '' is not defined''),
          Info (lit ''Try with a simpler description or different tone.'')]"
proof -
  let ?w = "bare\<lparr>include_signature := False\<rparr>"
  let ?p = "concat (map render (clauses ?w))"
  have g: "generate_button ?w" "purpose ?w \<noteq> []" by (simp_all add: bare_def lit_def)
  have len: "length (lit '' Ok.'') < length ?p"
    by (simp add: clauses_def bare_def length_lit)
  have s: "strip (lit '' Ok.'') = lit ''Ok.''"
    by (simp add: strip_def lit_def isspace_def)
  have r: "strip (str_replace ?p [] (?p @ lit '' Ok.'')) = lit ''Ok.''"
    by (simp only: str_replace_echoed [OF len] s)
  have e: "email_text ?p (?p @ lit '' Ok.'') ?w = Inl (NameError ''sender_name'')"
    by (simp add: email_text_cases r length_lit fallback_cases)
  show ?thesis
    using g e
    by (simp add: results_section_def prompt_template_clauses echo_def on_exception_def
        lit_def)
qed

text \<open>
  C2, as amended. The stripping step removes every occurrence of the prompt that a scan
  from the left meets, not only the first: the result is the text before the first
  occurrence followed by the result for the text behind it, and the text itself when the
  prompt does not occur or is empty. The remainder is then trimmed: whitespace only is cut
  off at both ends, and what is left neither starts nor ends with whitespace. That trimmed
  text is what the postprocessor compares with the threshold and returns.
\<close>

theorem prompt_removed_everywhere_then_trimmed:
  "str_replace p [] r =
     (if p = [] then r
      else (case str_find p r of
              None \<Rightarrow> r
            | Some i \<Rightarrow> take i r @ str_replace p [] (drop (i + length p) r)))
   \<and> (\<exists>a b. str_replace p [] r = a @ strip (str_replace p [] r) @ b
          \<and> (\<forall>c\<in>set a. isspace c) \<and> (\<forall>c\<in>set b. isspace c))
   \<and> (strip (str_replace p [] r) \<noteq> [] \<longrightarrow>
        \<not> isspace (hd (strip (str_replace p [] r)))
        \<and> \<not> isspace (last (strip (str_replace p [] r))))
   \<and> email_text p r w =
        (if 50 \<le> length (strip (str_replace p [] r)) then Inr (strip (str_replace p [] r))
         else fallback w)"
proof (intro conjI)
  show "str_replace p [] r =
     (if p = [] then r
      else (case str_find p r of
              None \<Rightarrow> r
            | Some i \<Rightarrow> take i r @ str_replace p [] (drop (i + length p) r)))"
  proof (cases "p = []")
    case True
    then show ?thesis by (simp add: str_replace_empty_old)
  next
    case False
    then show ?thesis using str_replace_find [of p r] by simp
  qed
  show "\<exists>a b. str_replace p [] r = a @ strip (str_replace p [] r) @ b
          \<and> (\<forall>c\<in>set a. isspace c) \<and> (\<forall>c\<in>set b. isspace c)"
    by (rule strip_decomp)
  show "strip (str_replace p [] r) \<noteq> [] \<longrightarrow>
        \<not> isspace (hd (strip (str_replace p [] r)))
        \<and> \<not> isspace (last (strip (str_replace p [] r)))"
    using strip_ends by blast
  show "email_text p r w =
        (if 50 \<le> length (strip (str_replace p [] r)) then Inr (strip (str_replace p [] r))
         else fallback w)"
    by (rule email_text_cases)
qed

theorem prompt_removed_everywhere_witness:
  "strip (str_replace (lit ''Hi'') [] (lit ''Hi there Hi'')) \<noteq> []
   \<and> \<not> isspace (hd (strip (str_replace (lit ''Hi'') [] (lit ''Hi there Hi''))))
   \<and> \<not> isspace (last (strip (str_replace (lit ''Hi'') [] (lit ''Hi there Hi''))))
   \<and> str_replace (lit ''Hi'') [] (lit ''Hi there Hi'') = lit '' there ''"
proof -
  have v: "str_replace (lit ''Hi'') [] (lit ''Hi there Hi'') = lit '' there ''"
    by (simp add: lit_def str_replace_Cons str_replace_Nil)
  have ne: "strip (str_replace (lit ''Hi'') [] (lit ''Hi there Hi'')) \<noteq> []"
    by (simp add: v) (simp add: lit_def strip_def isspace_def)
  from prompt_removed_everywhere_then_trimmed [of "lit ''Hi''" "lit ''Hi there Hi''"] ne v
  show ?thesis by blast
qed

theorem first_occurrence_only_counterexample:
  "strip (str_replace (lit ''Hi'') [] (lit ''Hi there Hi'')) = lit ''there''
   \<and> strip (remove_first (lit ''Hi'') (lit ''Hi there Hi'')) = lit ''there Hi''
   \<and> strip (str_replace (lit ''Hi'') [] (lit ''Hi there Hi''))
       \<noteq> strip (remove_first (lit ''Hi'') (lit ''Hi there Hi''))"
  by (simp add: lit_def strip_def isspace_def remove_first_def str_replace_Cons
      str_replace_Nil)

text \<open>
  C3. The postprocessor is claimed to return a non-empty draft for every request, whatever
  the value of \<open>include_signature\<close>. With the box unticked and an empty text from the
  pipeline it raises \<^verbatim>\<open>NameError\<close> instead, for every prompt and every other input.
\<close>

theorem fallback_raises_when_unsigned:
  "email_text p [] (w\<lparr>include_signature := False\<rparr>) = Inl (NameError ''sender_name'')"
  by (simp add: email_text_def fallback_def sender_name_def strip_def str_replace_Nil)

text \<open>
  C4. With the signature box unticked, the sender's name and position are claimed to leave
  the prompt and the fallback draft as they are with both fields empty. For the prompt
  this holds: it is the prompt of the same request with the box unticked and both inputs
  empty, and also the prompt of the request with the box ticked and both inputs empty.
  For the fallback it does not: with both fields empty the template gives a draft whose
  two sender lines are blank, but with the box unticked it reads the unbound
  \<^verbatim>\<open>sender_name\<close> and raises \<^verbatim>\<open>NameError\<close>, so there is no draft at all.
\<close>

theorem unsigned_fallback_is_not_the_empty_fields_draft:
  "fallback (w\<lparr>include_signature := False\<rparr>) = Inl (NameError ''sender_name'')
   \<and> fallback (w\<lparr>include_signature := True, name_input := [], position_input := []\<rparr>) =
       Inr ([10] @ replicate 20 32
            @ (if recipient w \<noteq> [] then lit ''Dear '' @ recipient w @ lit '',''
               else lit ''Hello,'')
            @ [10] @ replicate 20 32
            @ [10] @ replicate 20 32 @ purpose w
            @ [10] @ replicate 20 32
            @ [10] @ replicate 20 32
            @ (if tone w = Formal \<or> tone w = Professional then lit ''Best regards,''
               else lit ''Thanks,'')
            @ [10] @ replicate 20 32
            @ [10] @ replicate 20 32
            @ [10] @ replicate 20 32)
   \<and> fallback (w\<lparr>include_signature := False\<rparr>)
       \<noteq> fallback (w\<lparr>include_signature := True, name_input := [], position_input := []\<rparr>)
   \<and> prompt_template (w\<lparr>include_signature := False\<rparr>)
       = prompt_template
           (w\<lparr>include_signature := False, name_input := [], position_input := []\<rparr>)
   \<and> prompt_template (w\<lparr>include_signature := False\<rparr>)
       = prompt_template
           (w\<lparr>include_signature := True, name_input := [], position_input := []\<rparr>)"
proof (intro conjI)
  show u: "fallback (w\<lparr>include_signature := False\<rparr>) = Inl (NameError ''sender_name'')"
    by (simp add: fallback_cases)
  show t: "fallback (w\<lparr>include_signature := True, name_input := [], position_input := []\<rparr>) =
       Inr ([10] @ replicate 20 32
            @ (if recipient w \<noteq> [] then lit ''Dear '' @ recipient w @ lit '',''
               else lit ''Hello,'')
            @ [10] @ replicate 20 32
            @ [10] @ replicate 20 32 @ purpose w
            @ [10] @ replicate 20 32
            @ [10] @ replicate 20 32
            @ (if tone w = Formal \<or> tone w = Professional then lit ''Best regards,''
               else lit ''Thanks,'')
            @ [10] @ replicate 20 32
            @ [10] @ replicate 20 32
            @ [10] @ replicate 20 32)"
    by (simp add: fallback_cases)
  show "fallback (w\<lparr>include_signature := False\<rparr>)
       \<noteq> fallback (w\<lparr>include_signature := True, name_input := [], position_input := []\<rparr>)"
    by (simp only: u t sum.distinct not_False_eq_True)
  show "prompt_template (w\<lparr>include_signature := False\<rparr>)
       = prompt_template
           (w\<lparr>include_signature := False, name_input := [], position_input := []\<rparr>)"
    by (auto simp: prompt_template_clauses clauses_def)
  show "prompt_template (w\<lparr>include_signature := False\<rparr>)
       = prompt_template
           (w\<lparr>include_signature := True, name_input := [], position_input := []\<rparr>)"
    by (auto simp: prompt_template_clauses clauses_def)
qed

subsection \<open>Claims about the prompt builder\<close>

text \<open>
  C5. The prompt holds a greeting clause exactly when \<open>include_greeting\<close> is set and the
  recipient is not empty, and a signature clause exactly when \<open>include_signature\<close> is
  set and the sender's name is not empty. The prompt is the rendering of the clause list;
  the greeting (signature) clause is in the list exactly under its condition; and the
  prompt differs from the prompt built with the greeting (signature) box unticked exactly
  under that condition.
\<close>

theorem greeting_and_signature_clauses:
  "prompt_template w = Inr (concat (map render (clauses w)))
   \<and> ((\<exists>r. Greeting r \<in> set (clauses w)) \<longleftrightarrow> include_greeting w \<and> recipient w \<noteq> [])
   \<and> ((\<exists>s. Signature s \<in> set (clauses w)) \<longleftrightarrow> include_signature w \<and> name_input w \<noteq> [])
   \<and> (prompt_template w \<noteq> prompt_template (w\<lparr>include_greeting := False\<rparr>)
        \<longleftrightarrow> include_greeting w \<and> recipient w \<noteq> [])
   \<and> (prompt_template w \<noteq> prompt_template (w\<lparr>include_signature := False\<rparr>)
        \<longleftrightarrow> include_signature w \<and> name_input w \<noteq> [])"
proof (intro conjI)
  show "prompt_template w = Inr (concat (map render (clauses w)))"
    by (rule prompt_template_clauses)
  show "(\<exists>r. Greeting r \<in> set (clauses w)) \<longleftrightarrow> include_greeting w \<and> recipient w \<noteq> []"
    by (auto simp: clauses_def)
  show "(\<exists>s. Signature s \<in> set (clauses w)) \<longleftrightarrow> include_signature w \<and> name_input w \<noteq> []"
    by (auto simp: clauses_def)
  show "prompt_template w \<noteq> prompt_template (w\<lparr>include_greeting := False\<rparr>)
        \<longleftrightarrow> include_greeting w \<and> recipient w \<noteq> []"
    by (auto simp: prompt_template_clauses clauses_def render_not_empty
        simp del: render.simps)
  show "prompt_template w \<noteq> prompt_template (w\<lparr>include_signature := False\<rparr>)
        \<longleftrightarrow> include_signature w \<and> name_input w \<noteq> []"
    by (auto simp: prompt_template_clauses clauses_def render_not_empty
        simp del: render.simps)
qed

text \<open>
  C6, as amended. The prompt is, in this order: a newline and twelve spaces, the words
  \<^verbatim>\<open>Write a {tone, lowercased} email\<close> with no full stop, a newline and twelve spaces;
  the greeting clause when it applies; the purpose clause with the purpose text verbatim;
  the subject clause when the subject is not empty; the fixed clause about structure; the
  signature clause when it applies.
\<close>

theorem prompt_clause_order:
  "prompt_template w =
     Inr ([10] @ replicate 12 32 @ lit ''Write a '' @ lower (tone_str (tone w))
          @ lit '' email'' @ [10] @ replicate 12 32
          @ (if include_greeting w \<and> recipient w \<noteq> []
             then lit '' that starts with a greeting to '' @ recipient w else [])
          @ lit '' about the following: '' @ purpose w @ lit ''.''
          @ (if subject w \<noteq> []
             then lit '' The email subject is: '' @ [39] @ subject w @ [39] @ lit ''.''
             else [])
          @ lit '' The email should be professional, well-structured with clear paragraphs.''
          @ (if include_signature w \<and> name_input w \<noteq> []
             then lit '' End the email with a proper closing and signature: ''
                  @ name_input w
                  @ (if position_input w \<noteq> [] then lit '', '' @ position_input w else [])
                  @ lit ''.''
             else []))"
  by (auto simp: prompt_template_clauses clauses_def)

theorem base_clause_counterexample:
  "\<not> isl (prompt_template scenario)
   \<and> \<not> prefix (spec_base_clause Formal) (projr (prompt_template scenario))
   \<and> \<not> prefix (spec_base_clause Formal)
         (dropWhile isspace (projr (prompt_template scenario)))"
  by (simp add: prompt_template_clauses clauses_def scenario_def spec_base_clause_def
      lit_def lower_def isspace_def replicate_12)




subsection \<open>Claims about the fallback draft\<close>

text \<open>
  C8, as amended. For every request with the signature box ticked the fallback draft is
  the filled-in template: a newline; then, each after twenty spaces of indentation and
  each ended by a newline, the greeting line (\<^verbatim>\<open>Dear {recipient},\<close> for a recipient that
  is not empty, \<^verbatim>\<open>Hello,\<close> otherwise), a blank line, the purpose text, a blank line, the
  closing line (\<^verbatim>\<open>Best regards,\<close> exactly for the tones Formal and Professional,
  \<^verbatim>\<open>Thanks,\<close> otherwise), the line of the sender's name and the line of the sender's
  position; then twenty more spaces. The two sender lines are always there: an empty
  field leaves its line blank.
\<close>

theorem fallback_template:
  assumes "include_signature w"
  shows "fallback w =
     Inr ([10] @ replicate 20 32
          @ (if recipient w \<noteq> [] then lit ''Dear '' @ recipient w @ lit '','' else lit ''Hello,'')
          @ [10] @ replicate 20 32
          @ [10] @ replicate 20 32 @ purpose w
          @ [10] @ replicate 20 32
          @ [10] @ replicate 20 32
          @ (if tone w = Formal \<or> tone w = Professional then lit ''Best regards,''
             else lit ''Thanks,'')
          @ [10] @ replicate 20 32 @ name_input w
          @ [10] @ replicate 20 32 @ position_input w
          @ [10] @ replicate 20 32)"
  using assms by (simp add: fallback_cases)

theorem fallback_template_witness:
  "include_signature scenario
   \<and> fallback scenario =
     Inr ([10] @ replicate 20 32 @ lit ''Dear John Doe,''
          @ [10] @ replicate 20 32
          @ [10] @ replicate 20 32 @ lit ''Apologizing for missing the meeting''
          @ [10] @ replicate 20 32
          @ [10] @ replicate 20 32 @ lit ''Best regards,''
          @ [10] @ replicate 20 32 @ lit ''Jane Smith''
          @ [10] @ replicate 20 32 @ lit ''Marketing Manager''
          @ [10] @ replicate 20 32)"
proof -
  have i: "include_signature scenario" by (simp add: scenario_def)
  from fallback_template [OF i] i show ?thesis
    by (simp add: scenario_def lit_def)
qed

theorem empty_sender_lines_counterexample:
  "fallback bare =
     Inr ([10] @ replicate 20 32 @ lit ''Hello,''
          @ [10] @ replicate 20 32
          @ [10] @ replicate 20 32 @ lit ''Hi''
          @ [10] @ replicate 20 32
          @ [10] @ replicate 20 32 @ lit ''Thanks,''
          @ [10] @ replicate 20 32
          @ [10] @ replicate 20 32
          @ [10] @ replicate 20 32)
   \<and> count_list (projr (fallback bare)) 10
       = count_list
           (projr (fallback (bare\<lparr>name_input := lit ''Jane'', position_input := lit ''Manager''\<rparr>)))
           10"
  by (simp add: fallback_cases bare_def lit_def)

subsection \<open>Claims about the required field\<close>

text \<open>
  C9. When the purpose is empty the run does nothing but show the hint: no prompt is
  built, the generation pipeline is not called, no error is shown.
\<close>

theorem empty_purpose_is_no_op:
  assumes "purpose w = []"
  shows "results_section g w =
     Inr \<lparr>prompt_built = None, engine_calls = [],
          displayed =
            [Info (lit ''Fill in the details on the left and click '' @ [39]
                   @ lit ''Generate Email'' @ [39] @ lit '' to create your draft.'')]\<rparr>"
  using assms by (simp add: results_section_idle fill_in_message_def)

theorem empty_purpose_witness:
  "purpose (scenario\<lparr>purpose := []\<rparr>) = []
   \<and> results_section echo (scenario\<lparr>purpose := []\<rparr>) =
     Inr \<lparr>prompt_built = None, engine_calls = [],
          displayed =
            [Info (lit ''Fill in the details on the left and click '' @ [39]
                   @ lit ''Generate Email'' @ [39] @ lit '' to create your draft.'')]\<rparr>"
  using empty_purpose_is_no_op [of "scenario\<lparr>purpose := []\<rparr>" echo]
  by simp



end
